theory Spec2Isabelle
  imports Main "HOL-Library.Word"
begin

unbundle bit_operations_syntax

section \<open>The Win32 port of the LevelDB Env (util/env\_win.cc)\<close>

text \<open>
  The file \<^verbatim>\<open>util/env_win.cc\<close> implements the Env interface on top of the Win32 API.
  Every function of the source is modelled as a function that takes the state of the
  operating system and returns its result together with the new state. The operating
  system itself is a parameter: a record \<open>'w win32api\<close> of the API functions the source
  calls, over an arbitrary type \<open>'w\<close> of system states. A property proved for every
  \<open>api\<close> holds whatever the system answers; a concrete reference system, written from
  the documented behaviour of the Win32 functions, is given further down and used to run
  the code on concrete files and directories.
\<close>

subsection \<open>Windows types and constants\<close>

type_synonym DWORD = "32 word"
type_synonym LONG = "32 word"
type_synonym BOOL = "32 word"
type_synonym HANDLE = "64 word"
type_synonym LPTSTR = "64 word"
type_synonym byte = "8 word"

definition FALSE :: BOOL where "FALSE = 0"
definition TRUE :: BOOL where "TRUE = 1"

definition INVALID_HANDLE_VALUE :: HANDLE where "INVALID_HANDLE_VALUE = - 1"
definition INVALID_SET_FILE_POINTER :: DWORD where "INVALID_SET_FILE_POINTER = - 1"

definition FILE_BEGIN :: DWORD where "FILE_BEGIN = 0"
definition FILE_CURRENT :: DWORD where "FILE_CURRENT = 1"
definition FILE_END :: DWORD where "FILE_END = 2"

definition GENERIC_READ :: DWORD where "GENERIC_READ = 0x80000000"
definition GENERIC_WRITE :: DWORD where "GENERIC_WRITE = 0x40000000"
definition FILE_SHARE_READ :: DWORD where "FILE_SHARE_READ = 1"
definition FILE_ATTRIBUTE_NORMAL :: DWORD where "FILE_ATTRIBUTE_NORMAL = 0x80"
definition FILE_FLAG_SEQUENTIAL_SCAN :: DWORD where "FILE_FLAG_SEQUENTIAL_SCAN = 0x08000000"

definition CREATE_NEW :: DWORD where "CREATE_NEW = 1"
definition CREATE_ALWAYS :: DWORD where "CREATE_ALWAYS = 2"
definition OPEN_EXISTING :: DWORD where "OPEN_EXISTING = 3"
definition OPEN_ALWAYS :: DWORD where "OPEN_ALWAYS = 4"
definition TRUNCATE_EXISTING :: DWORD where "TRUNCATE_EXISTING = 5"

definition NO_ERROR :: DWORD where "NO_ERROR = 0"
definition ERROR_FILE_NOT_FOUND :: DWORD where "ERROR_FILE_NOT_FOUND = 2"
definition ERROR_PATH_NOT_FOUND :: DWORD where "ERROR_PATH_NOT_FOUND = 3"
definition ERROR_INVALID_HANDLE :: DWORD where "ERROR_INVALID_HANDLE = 6"
definition ERROR_NO_MORE_FILES :: DWORD where "ERROR_NO_MORE_FILES = 18"
definition ERROR_NOT_READY :: DWORD where "ERROR_NOT_READY = 21"
definition ERROR_FILE_EXISTS :: DWORD where "ERROR_FILE_EXISTS = 80"
definition ERROR_INVALID_PARAMETER :: DWORD where "ERROR_INVALID_PARAMETER = 87"
definition ERROR_NEGATIVE_SEEK :: DWORD where "ERROR_NEGATIVE_SEEK = 131"
definition ERROR_ALREADY_EXISTS :: DWORD where "ERROR_ALREADY_EXISTS = 183"
definition ERROR_MR_MID_NOT_FOUND :: DWORD where "ERROR_MR_MID_NOT_FOUND = 317"

text \<open>\<^verbatim>\<open>#define MAX_ERRORTXT_LEN 2048\<close>\<close>

definition MAX_ERRORTXT_LEN :: nat where "MAX_ERRORTXT_LEN = 2048"

subsection \<open>Status\<close>

text \<open>
  Modelled from the spec: the Status type (\<^verbatim>\<open>leveldb/status.h\<close> is not part of the
  source given): a tagged outcome, success, or a failure carrying its kind, a context
  string and a detail message. \<open>IOError context detail\<close> is
  \<^verbatim>\<open>Status::IOError(context, detail)\<close>.
\<close>

datatype Status = OK | IOError string string | NotSupported string

fun ok :: "Status \<Rightarrow> bool" where
  "ok OK = True"
| "ok (IOError context detail) = False"
| "ok (NotSupported msg) = False"

subsection \<open>The operating system as a parameter\<close>

text \<open>
  The Win32 functions called by the source. Out parameters are returned with the result:
  \<^item> \<open>FormatMessage\<close> (with \<^verbatim>\<open>FORMAT_MESSAGE_ALLOCATE_BUFFER\<close>) returns \<open>None\<close> when it
    returns 0, and the buffer it allocated with the text in it otherwise;
  \<^item> \<open>SetFilePointer\<close> returns its DWORD result and the value it leaves in
    \<^verbatim>\<open>*lpDistanceToMoveHigh\<close>;
  \<^item> \<open>ReadFile\<close> returns its BOOL and the bytes it stored in the buffer (their number is
    \<^verbatim>\<open>numberOfBytesRead\<close>);
  \<^item> \<open>WriteFile\<close> returns its BOOL and \<^verbatim>\<open>numberOfBytesWritten\<close>;
  \<^item> \<open>FindFirstFile\<close> returns the search handle and the \<^verbatim>\<open>cFileName\<close> it stored;
  \<^item> \<open>FindNextFile\<close> returns \<open>None\<close> for FALSE and the \<^verbatim>\<open>cFileName\<close> it stored for TRUE.

  Modelled from the spec: \<open>Mutex_Lock\<close> and \<open>Mutex_Unlock\<close> are \<^verbatim>\<open>port::Mutex::Lock\<close> and
  \<^verbatim>\<open>Unlock\<close> (\<^verbatim>\<open>port/port.h\<close> is not part of the source given), the exclusion guard of the
  random-access reader; the argument identifies the mutex.
\<close>

record 'w win32api =
  GetLastError :: "'w \<Rightarrow> DWORD \<times> 'w"
  FormatMessage :: "DWORD \<Rightarrow> 'w \<Rightarrow> (LPTSTR \<times> string) option \<times> 'w"
  LocalFree :: "LPTSTR \<Rightarrow> 'w \<Rightarrow> 'w"
  CreateFile :: "string \<Rightarrow> DWORD \<Rightarrow> DWORD \<Rightarrow> DWORD \<Rightarrow> DWORD \<Rightarrow> 'w \<Rightarrow> HANDLE \<times> 'w"
  CloseHandle :: "HANDLE \<Rightarrow> 'w \<Rightarrow> BOOL \<times> 'w"
  SetFilePointer :: "HANDLE \<Rightarrow> LONG \<Rightarrow> LONG \<Rightarrow> DWORD \<Rightarrow> 'w \<Rightarrow> (DWORD \<times> LONG) \<times> 'w"
  ReadFile :: "HANDLE \<Rightarrow> DWORD \<Rightarrow> 'w \<Rightarrow> (BOOL \<times> byte list) \<times> 'w"
  WriteFile :: "HANDLE \<Rightarrow> byte list \<Rightarrow> DWORD \<Rightarrow> 'w \<Rightarrow> (BOOL \<times> DWORD) \<times> 'w"
  FlushFileBuffers :: "HANDLE \<Rightarrow> 'w \<Rightarrow> BOOL \<times> 'w"
  FindFirstFile :: "string \<Rightarrow> 'w \<Rightarrow> (HANDLE \<times> string) \<times> 'w"
  FindNextFile :: "HANDLE \<Rightarrow> 'w \<Rightarrow> string option \<times> 'w"
  FindClose :: "HANDLE \<Rightarrow> 'w \<Rightarrow> BOOL \<times> 'w"
  Mutex_Lock :: "nat \<Rightarrow> 'w \<Rightarrow> 'w"
  Mutex_Unlock :: "nat \<Rightarrow> 'w \<Rightarrow> 'w"

subsection \<open>The error translator\<close>

text \<open>The conversion \<^verbatim>\<open>%d\<close> of \<^verbatim>\<open>snprintf\<close>: a signed decimal number.\<close>

definition digit_char :: "nat \<Rightarrow> char" where
  "digit_char d = ''0123456789'' ! d"

fun dec_nat :: "nat \<Rightarrow> string" where
  "dec_nat n = (if n < 10 then [digit_char n] else dec_nat (n div 10) @ [digit_char (n mod 10)])"

declare dec_nat.simps [simp del]

definition printf_d :: "int \<Rightarrow> string" where
  "printf_d i = (if i < 0 then CHR ''-'' # dec_nat (nat (- i)) else dec_nat (nat i))"

text \<open>
  \<^verbatim>\<open>static Status Win32IOError(const std::string& context, int getLastErrorCode)\<close>.
  The error code is the DWORD of \<^verbatim>\<open>GetLastError\<close> converted to \<^verbatim>\<open>int\<close>: the same 32 bits,
  read as signed by \<^verbatim>\<open>%d\<close>. \<^verbatim>\<open>snprintf\<close> stores at most \<^verbatim>\<open>MAX_ERRORTXT_LEN - 1\<close>
  characters.
\<close>

definition Win32IOError :: "'w win32api \<Rightarrow> string \<Rightarrow> 32 word \<Rightarrow> 'w \<Rightarrow> Status \<times> 'w" where
  "Win32IOError api context getLastErrorCode w =
     (case FormatMessage api getLastErrorCode w of
        (None, w1) \<Rightarrow>
          (IOError context
             (take (MAX_ERRORTXT_LEN - 1)
                (''unknow system error '' @ printf_d (sint getLastErrorCode))), w1)
      | (Some (lpErrorText, errorMessage), w1) \<Rightarrow>
          (IOError context errorMessage, LocalFree api lpErrorText w1))"

subsection \<open>The file-handle base\<close>

text \<open>
  \<^verbatim>\<open>class Win32FileBase\<close>: the file name for error reports (\<^verbatim>\<open>filename_\<close>) and the Win32
  handle (\<^verbatim>\<open>hFile_\<close>); the fields are written here without the final underscore, which
  an Isabelle name cannot end with. The destructor closes the handle when it is not
  \<^verbatim>\<open>INVALID_HANDLE_VALUE\<close>.
\<close>

record Win32FileBase =
  filename :: string
  hFile :: HANDLE

definition Win32FileBase_destructor ::
    "'w win32api \<Rightarrow> 'a Win32FileBase_scheme \<Rightarrow> 'w \<Rightarrow> 'w" where
  "Win32FileBase_destructor api this w =
     (if hFile this \<noteq> INVALID_HANDLE_VALUE then snd (CloseHandle api (hFile this) w)
      else w)"

text \<open>
  \<^verbatim>\<open>#define LODWORD(l) (DWORD)( l        & 0xffffffff)\<close> and
  \<^verbatim>\<open>#define HIDWORD(l) (DWORD)((l >> 32) & 0xffffffff)\<close>
\<close>

definition LODWORD :: "64 word \<Rightarrow> DWORD" where
  "LODWORD l = ucast (l AND 0xffffffff)"

definition HIDWORD :: "64 word \<Rightarrow> DWORD" where
  "HIDWORD l = ucast (drop_bit 32 l AND 0xffffffff)"

text \<open>
  \<^verbatim>\<open>Status _apiSetFilePointer(uint64_t offset, DWORD moveMethod = FILE_CURRENT) const\<close>.
  The source tests \<^verbatim>\<open>retCode == FALSE\<close>.
\<close>

definition apiSetFilePointer ::
    "'w win32api \<Rightarrow> 'a Win32FileBase_scheme \<Rightarrow> 64 word \<Rightarrow> DWORD \<Rightarrow> 'w \<Rightarrow> Status \<times> 'w" where
  "apiSetFilePointer api this offset moveMethod w =
     (let distanceToMove = LODWORD offset;
          distanceToMoveHigh = HIDWORD offset
      in case SetFilePointer api (hFile this) distanceToMove distanceToMoveHigh moveMethod w of
           ((retCode, newHigh), w1) \<Rightarrow>
             if retCode = FALSE then
               (case GetLastError api w1 of
                  (err, w2) \<Rightarrow> Win32IOError api (filename this) err w2)
             else (OK, w1))"

subsection \<open>The sequential reader\<close>

text \<open>
  \<^verbatim>\<open>Win32SequentialFile::Read(size_t n, Slice* result, char* scratch)\<close>: the result is the
  status and the slice stored in \<^verbatim>\<open>*result\<close> (\<open>None\<close> when nothing is stored). The size
  \<open>n\<close> is converted to a DWORD by \<^verbatim>\<open>static_cast\<close>.
\<close>

definition Win32SequentialFile_Read ::
    "'w win32api \<Rightarrow> Win32FileBase \<Rightarrow> nat \<Rightarrow> 'w \<Rightarrow> (Status \<times> byte list option) \<times> 'w" where
  "Win32SequentialFile_Read api this n w =
     (let numberOfBytesToRead = (of_nat n :: DWORD)
      in case ReadFile api (hFile this) numberOfBytesToRead w of
           ((retCode, scratch), w1) \<Rightarrow>
             if retCode = FALSE then
               (case GetLastError api w1 of
                  (err, w2) \<Rightarrow>
                    (case Win32IOError api (filename this) err w2 of
                       (status, w3) \<Rightarrow> ((status, None), w3)))
             else ((OK, Some scratch), w1))"

text \<open>\<^verbatim>\<open>Win32SequentialFile::Skip(uint64_t n)\<close>\<close>

definition Win32SequentialFile_Skip ::
    "'w win32api \<Rightarrow> Win32FileBase \<Rightarrow> 64 word \<Rightarrow> 'w \<Rightarrow> Status \<times> 'w" where
  "Win32SequentialFile_Skip api this n w = apiSetFilePointer api this n FILE_CURRENT w"

subsection \<open>The random-access reader\<close>

text \<open>
  \<^verbatim>\<open>class Win32RandomAccessFile\<close> adds the mutex \<^verbatim>\<open>mu_\<close> to the base class; the field holds
  the number that identifies the mutex to \<open>Mutex_Lock\<close> and \<open>Mutex_Unlock\<close>.
\<close>

record Win32RandomAccessFile = Win32FileBase +
  mu :: nat

text \<open>
  \<^verbatim>\<open>Win32RandomAccessFile::Read(uint64_t offset, size_t n, Slice* result, char* scratch)\<close>
\<close>

definition Win32RandomAccessFile_Read ::
    "'w win32api \<Rightarrow> Win32RandomAccessFile \<Rightarrow> 64 word \<Rightarrow> nat \<Rightarrow> 'w
      \<Rightarrow> (Status \<times> byte list option) \<times> 'w" where
  "Win32RandomAccessFile_Read api this offset n w =
     (let w0 = Mutex_Lock api (mu this) w
      in case apiSetFilePointer api this offset FILE_BEGIN w0 of
           (status, w1) \<Rightarrow>
             if \<not> ok status then
               (let w2 = Mutex_Unlock api (mu this) w1 in ((status, None), w2))
             else
               (let numberOfBytesToRead = (of_nat n :: DWORD)
                in case ReadFile api (hFile this) numberOfBytesToRead w1 of
                     ((retCode, scratch), w2) \<Rightarrow>
                       (let w3 = Mutex_Unlock api (mu this) w2
                        in if retCode = FALSE then
                             (case GetLastError api w3 of
                                (err, w4) \<Rightarrow>
                                  (case Win32IOError api (filename this) err w4 of
                                     (status', w5) \<Rightarrow> ((status', None), w5)))
                           else ((OK, Some scratch), w3))))"

subsection \<open>The writer\<close>

text \<open>
  \<^verbatim>\<open>Win32WritableFile::Append(const Slice& data)\<close>: \<^verbatim>\<open>data.size()\<close> is converted to a
  DWORD; \<^verbatim>\<open>numberOfBytesWritten\<close> is received and not looked at.
\<close>

definition Win32WritableFile_Append ::
    "'w win32api \<Rightarrow> Win32FileBase \<Rightarrow> byte list \<Rightarrow> 'w \<Rightarrow> Status \<times> 'w" where
  "Win32WritableFile_Append api this data w =
     (let buffer = data;
          numberOfBytesToWrite = (of_nat (length data) :: DWORD)
      in case WriteFile api (hFile this) buffer numberOfBytesToWrite w of
           ((retCode, numberOfBytesWritten), w1) \<Rightarrow>
             if retCode = FALSE then
               (case GetLastError api w1 of
                  (err, w2) \<Rightarrow> Win32IOError api (filename this) err w2)
             else (OK, w1))"

text \<open>
  \<^verbatim>\<open>Win32WritableFile::Close()\<close>: the source tests \<^verbatim>\<open>hFile_ == INVALID_HANDLE_VALUE\<close>. The
  result is the status and the object after the call.
\<close>

definition Win32WritableFile_Close ::
    "'w win32api \<Rightarrow> Win32FileBase \<Rightarrow> 'w \<Rightarrow> (Status \<times> Win32FileBase) \<times> 'w" where
  "Win32WritableFile_Close api this w =
     (if hFile this = INVALID_HANDLE_VALUE then
        (case CloseHandle api (hFile this) w of
           (closed, w1) \<Rightarrow> ((OK, this\<lparr>hFile := INVALID_HANDLE_VALUE\<rparr>), w1))
      else ((OK, this), w))"

text \<open>\<^verbatim>\<open>Win32WritableFile::Flush()\<close>: the call of the API is commented out.\<close>

definition Win32WritableFile_Flush ::
    "'w win32api \<Rightarrow> Win32FileBase \<Rightarrow> 'w \<Rightarrow> Status \<times> 'w" where
  "Win32WritableFile_Flush api this w = (OK, w)"

text \<open>\<^verbatim>\<open>Win32WritableFile::Sync()\<close>: the result of \<^verbatim>\<open>FlushFileBuffers\<close> is dropped.\<close>

definition Win32WritableFile_Sync ::
    "'w win32api \<Rightarrow> Win32FileBase \<Rightarrow> 'w \<Rightarrow> Status \<times> 'w" where
  "Win32WritableFile_Sync api this w =
     (case FlushFileBuffers api (hFile this) w of (flushed, w1) \<Rightarrow> (OK, w1))"

subsection \<open>The Env\<close>

text \<open>
  \<^verbatim>\<open>Win32Env::NewSequentialFile(const std::string& fname, SequentialFile** result)\<close>: the
  result is the status and \<^verbatim>\<open>*result\<close> (\<open>None\<close> for NULL).
\<close>

definition Win32Env_NewSequentialFile ::
    "'w win32api \<Rightarrow> string \<Rightarrow> 'w \<Rightarrow> (Status \<times> Win32FileBase option) \<times> 'w" where
  "Win32Env_NewSequentialFile api fname w =
     (case CreateFile api fname GENERIC_READ FILE_SHARE_READ OPEN_EXISTING
             (FILE_ATTRIBUTE_NORMAL OR FILE_FLAG_SEQUENTIAL_SCAN) w of
        (h, w1) \<Rightarrow>
          if h = INVALID_HANDLE_VALUE then
            (case GetLastError api w1 of
               (err, w2) \<Rightarrow>
                 (case Win32IOError api fname err w2 of
                    (status, w3) \<Rightarrow> ((status, None), w3)))
          else ((OK, Some \<lparr>filename = fname, hFile = h\<rparr>), w1))"

text \<open>
  \<^verbatim>\<open>Win32Env::NewWritableFile(const std::string& fname, WritableFile** result)\<close>, with the
  same result. The source passes \<^verbatim>\<open>OPEN_EXISTING\<close>.
\<close>

definition Win32Env_NewWritableFile ::
    "'w win32api \<Rightarrow> string \<Rightarrow> 'w \<Rightarrow> (Status \<times> Win32FileBase option) \<times> 'w" where
  "Win32Env_NewWritableFile api fname w =
     (case CreateFile api fname (GENERIC_READ OR GENERIC_WRITE) FILE_SHARE_READ OPEN_EXISTING
             (FILE_ATTRIBUTE_NORMAL OR FILE_FLAG_SEQUENTIAL_SCAN) w of
        (h, w1) \<Rightarrow>
          if h = INVALID_HANDLE_VALUE then
            (case GetLastError api w1 of
               (err, w2) \<Rightarrow>
                 (case Win32IOError api fname err w2 of
                    (status, w3) \<Rightarrow> ((status, None), w3)))
          else ((OK, Some \<lparr>filename = fname, hFile = h\<rparr>), w1))"

text \<open>
  The loop of \<^verbatim>\<open>Win32Env::GetChildren\<close>:
  \<^verbatim>\<open>
  BOOL fileFound = TRUE;
  while (fileFound) {
    if (strcmp(findFileData.cFileName, ".") == 0)  continue;
    if (strcmp(findFileData.cFileName, "..") == 0) continue;
    result->push_back( findFileData.cFileName );
    fileFound = win32api::FindNextFile(hFind, &findFileData);
  }
  \<close>
  A \<^verbatim>\<open>continue\<close> goes back to the test of the loop with \<^verbatim>\<open>fileFound\<close> and
  \<^verbatim>\<open>findFileData\<close> as they are. The function is entered with \<^verbatim>\<open>fileFound\<close> true; \<open>None\<close>
  is a loop that never ends.
\<close>

partial_function (option) GetChildren_loop ::
    "'w win32api \<Rightarrow> HANDLE \<Rightarrow> string \<Rightarrow> string list \<Rightarrow> 'w \<Rightarrow> (string list \<times> 'w) option" where
  "GetChildren_loop api hFind cFileName result w =
     (if cFileName = ''.'' then GetChildren_loop api hFind cFileName result w
      else if cFileName = ''..'' then GetChildren_loop api hFind cFileName result w
      else
        (case FindNextFile api hFind w of
           (None, w1) \<Rightarrow> Some (result @ [cFileName], w1)
         | (Some next_name, w1) \<Rightarrow>
             GetChildren_loop api hFind next_name (result @ [cFileName]) w1))"

text \<open>
  \<^verbatim>\<open>Win32Env::GetChildren(const std::string& dir, std::vector<std::string>* result)\<close>: the
  result is the status and the vector \<^verbatim>\<open>*result\<close> after the call.
\<close>

definition Win32Env_GetChildren ::
    "'w win32api \<Rightarrow> string \<Rightarrow> 'w \<Rightarrow> ((Status \<times> string list) \<times> 'w) option" where
  "Win32Env_GetChildren api dir w =
     (let result = [];
          dirFilter = dir @ [CHR 0x5C] @ ''*.*''
      in case FindFirstFile api dirFilter w of
           ((hFind, cFileName), w1) \<Rightarrow>
             if hFind = INVALID_HANDLE_VALUE then
               (case GetLastError api w1 of
                  (err, w2) \<Rightarrow>
                    (case Win32IOError api dir err w2 of
                       (status, w3) \<Rightarrow> Some ((status, result), w3)))
             else
               (case GetChildren_loop api hFind cFileName result w1 of
                  None \<Rightarrow> None
                | Some (result', w2) \<Rightarrow>
                    (case FindClose api hFind w2 of
                       (closed, w3) \<Rightarrow> Some ((OK, result'), w3))))"

subsection \<open>Recording the calls of the API\<close>

text \<open>
  To speak about the order of the calls a function makes, any system \<open>api\<close> is wrapped
  into the system \<open>traced api\<close>, which answers as \<open>api\<close> does and appends each call to a
  list kept beside the state.
\<close>

datatype api_call =
    Call_GetLastError
  | Call_FormatMessage DWORD
  | Call_LocalFree LPTSTR
  | Call_CreateFile string DWORD DWORD DWORD DWORD
  | Call_CloseHandle HANDLE
  | Call_SetFilePointer HANDLE LONG LONG DWORD
  | Call_ReadFile HANDLE DWORD
  | Call_WriteFile HANDLE "byte list" DWORD
  | Call_FlushFileBuffers HANDLE
  | Call_FindFirstFile string
  | Call_FindNextFile HANDLE
  | Call_FindClose HANDLE
  | Call_Mutex_Lock nat
  | Call_Mutex_Unlock nat

definition record_call ::
    "api_call \<Rightarrow> ('w \<Rightarrow> 'r \<times> 'w) \<Rightarrow> 'w \<times> api_call list \<Rightarrow> 'r \<times> ('w \<times> api_call list)" where
  "record_call c f s = (case f (fst s) of (r, w') \<Rightarrow> (r, (w', snd s @ [c])))"

definition record_step ::
    "api_call \<Rightarrow> ('w \<Rightarrow> 'w) \<Rightarrow> 'w \<times> api_call list \<Rightarrow> 'w \<times> api_call list" where
  "record_step c f s = (f (fst s), snd s @ [c])"

definition traced :: "'w win32api \<Rightarrow> ('w \<times> api_call list) win32api" where
  "traced api =
     \<lparr> GetLastError = record_call Call_GetLastError (GetLastError api),
       FormatMessage = (\<lambda>code. record_call (Call_FormatMessage code) (FormatMessage api code)),
       LocalFree = (\<lambda>p. record_step (Call_LocalFree p) (LocalFree api p)),
       CreateFile = (\<lambda>name access share disposition flags.
          record_call (Call_CreateFile name access share disposition flags)
            (CreateFile api name access share disposition flags)),
       CloseHandle = (\<lambda>h. record_call (Call_CloseHandle h) (CloseHandle api h)),
       SetFilePointer = (\<lambda>h lo hi method.
          record_call (Call_SetFilePointer h lo hi method) (SetFilePointer api h lo hi method)),
       ReadFile = (\<lambda>h n. record_call (Call_ReadFile h n) (ReadFile api h n)),
       WriteFile = (\<lambda>h buf n. record_call (Call_WriteFile h buf n) (WriteFile api h buf n)),
       FlushFileBuffers = (\<lambda>h. record_call (Call_FlushFileBuffers h) (FlushFileBuffers api h)),
       FindFirstFile = (\<lambda>pat. record_call (Call_FindFirstFile pat) (FindFirstFile api pat)),
       FindNextFile = (\<lambda>h. record_call (Call_FindNextFile h) (FindNextFile api h)),
       FindClose = (\<lambda>h. record_call (Call_FindClose h) (FindClose api h)),
       Mutex_Lock = (\<lambda>m. record_step (Call_Mutex_Lock m) (Mutex_Lock api m)),
       Mutex_Unlock = (\<lambda>m. record_step (Call_Mutex_Unlock m) (Mutex_Unlock api m)) \<rparr>"

text \<open>The calls made by the error translator.\<close>

fun is_error_translation :: "api_call \<Rightarrow> bool" where
  "is_error_translation Call_GetLastError = True"
| "is_error_translation (Call_FormatMessage code) = True"
| "is_error_translation (Call_LocalFree p) = True"
| "is_error_translation c = False"

subsection \<open>A reference system\<close>

text \<open>
  A small Win32 system, written from the documentation of the API functions: regular
  files with their bytes, directories with the names their enumeration yields, open file
  handles with their file pointers, search handles, the buffers allocated by
  \<open>FormatMessage\<close>, the mutexes held and the last-error code of the calling thread. The
  device that holds the files can be not ready (\<open>offline\<close>); reading, writing and flushing
  then fail with \<^verbatim>\<open>ERROR_NOT_READY\<close>. Access rights and sharing modes are not modelled.
\<close>

record open_file =
  of_path :: string
  of_pos :: nat

record world =
  files :: "string \<rightharpoonup> byte list"
  dirs :: "string \<rightharpoonup> string list"
  handles :: "HANDLE \<rightharpoonup> open_file"
  searches :: "HANDLE \<rightharpoonup> string list"
  next_handle :: HANDLE
  allocated :: "LPTSTR list"
  next_buffer :: LPTSTR
  held :: "nat list"
  offline :: bool
  last_error :: DWORD

definition set_last_error :: "DWORD \<Rightarrow> world \<Rightarrow> world" where
  "set_last_error e w = w\<lparr>last_error := e\<rparr>"

definition os_GetLastError :: "world \<Rightarrow> DWORD \<times> world" where
  "os_GetLastError w = (last_error w, w)"

text \<open>
  The message table of the system, for the codes used here; a code without an entry (as
  every code with bit 29 set, which is reserved for applications) has no message.
\<close>

definition system_message :: "DWORD \<Rightarrow> string option" where
  "system_message code =
     (if code = 0 then Some ''The operation completed successfully.''
      else if code = 2 then Some ''The system cannot find the file specified.''
      else if code = 3 then Some ''The system cannot find the path specified.''
      else if code = 6 then Some ''The handle is invalid.''
      else if code = 18 then Some ''There are no more files.''
      else if code = 21 then Some ''The device is not ready.''
      else if code = 131 then
        Some ''An attempt was made to move the file pointer before the beginning of the file.''
      else None)"

definition os_FormatMessage :: "DWORD \<Rightarrow> world \<Rightarrow> (LPTSTR \<times> string) option \<times> world" where
  "os_FormatMessage code w =
     (case system_message code of
        None \<Rightarrow> (None, set_last_error ERROR_MR_MID_NOT_FOUND w)
      | Some text \<Rightarrow>
          (Some (next_buffer w, text),
           w\<lparr>allocated := next_buffer w # allocated w, next_buffer := next_buffer w + 1\<rparr>))"

definition os_LocalFree :: "LPTSTR \<Rightarrow> world \<Rightarrow> world" where
  "os_LocalFree p w = w\<lparr>allocated := removeAll p (allocated w)\<rparr>"

definition open_handle :: "string \<Rightarrow> world \<Rightarrow> HANDLE \<times> world" where
  "open_handle name w =
     (next_handle w,
      w\<lparr>handles := (handles w)(next_handle w \<mapsto> \<lparr>of_path = name, of_pos = 0\<rparr>),
        next_handle := next_handle w + 1\<rparr>)"

text \<open>
  \<open>CreateFile\<close> by creation disposition: \<^verbatim>\<open>OPEN_EXISTING\<close> opens a file only if it
  exists and fails with \<^verbatim>\<open>ERROR_FILE_NOT_FOUND\<close> otherwise, leaving the file as it is;
  \<^verbatim>\<open>CREATE_ALWAYS\<close> creates the file or truncates the existing one; \<^verbatim>\<open>CREATE_NEW\<close> fails
  on an existing file; \<^verbatim>\<open>OPEN_ALWAYS\<close> opens or creates; \<^verbatim>\<open>TRUNCATE_EXISTING\<close> truncates
  an existing file and fails otherwise.
\<close>

definition os_CreateFile ::
    "string \<Rightarrow> DWORD \<Rightarrow> DWORD \<Rightarrow> DWORD \<Rightarrow> DWORD \<Rightarrow> world \<Rightarrow> HANDLE \<times> world" where
  "os_CreateFile name access share disposition flags w =
     (let exists = (files w name \<noteq> None);
          truncated = w\<lparr>files := (files w)(name \<mapsto> [])\<rparr>
      in if disposition = OPEN_EXISTING then
           (if exists then open_handle name w
            else (INVALID_HANDLE_VALUE, set_last_error ERROR_FILE_NOT_FOUND w))
         else if disposition = CREATE_ALWAYS then
           open_handle name
             (set_last_error (if exists then ERROR_ALREADY_EXISTS else NO_ERROR) truncated)
         else if disposition = CREATE_NEW then
           (if exists then (INVALID_HANDLE_VALUE, set_last_error ERROR_FILE_EXISTS w)
            else open_handle name truncated)
         else if disposition = OPEN_ALWAYS then
           (if exists then open_handle name (set_last_error ERROR_ALREADY_EXISTS w)
            else open_handle name (set_last_error NO_ERROR truncated))
         else if disposition = TRUNCATE_EXISTING then
           (if exists then open_handle name truncated
            else (INVALID_HANDLE_VALUE, set_last_error ERROR_FILE_NOT_FOUND w))
         else (INVALID_HANDLE_VALUE, set_last_error ERROR_INVALID_PARAMETER w))"

definition os_CloseHandle :: "HANDLE \<Rightarrow> world \<Rightarrow> BOOL \<times> world" where
  "os_CloseHandle h w =
     (if handles w h = None then (FALSE, set_last_error ERROR_INVALID_HANDLE w)
      else (TRUE, w\<lparr>handles := (handles w)(h := None)\<rparr>))"

text \<open>The bytes of the file a handle is open on.\<close>

definition contents :: "world \<Rightarrow> open_file \<Rightarrow> byte list" where
  "contents w f = (case files w (of_path f) of None \<Rightarrow> [] | Some bytes \<Rightarrow> bytes)"

text \<open>
  \<open>SetFilePointer\<close>: the two LONGs form one signed 64-bit distance, added to the start of
  the file, to the current file pointer or to the end of the file by move method. A
  position before the start of the file is the error \<^verbatim>\<open>ERROR_NEGATIVE_SEEK\<close>; a position
  beyond the end of the file is not an error. On success the result is the low DWORD of
  the new file pointer, the high DWORD is stored through the pointer, and when the low
  DWORD happens to be \<^verbatim>\<open>INVALID_SET_FILE_POINTER\<close> the last error is set to \<^verbatim>\<open>NO_ERROR\<close>.
  On failure the result is \<^verbatim>\<open>INVALID_SET_FILE_POINTER\<close> and the last error is not
  \<^verbatim>\<open>NO_ERROR\<close>.
\<close>

definition join_distance :: "LONG \<Rightarrow> LONG \<Rightarrow> int" where
  "join_distance lo hi = sint (push_bit 32 (ucast hi :: 64 word) OR (ucast lo :: 64 word))"

definition os_SetFilePointer ::
    "HANDLE \<Rightarrow> LONG \<Rightarrow> LONG \<Rightarrow> DWORD \<Rightarrow> world \<Rightarrow> (DWORD \<times> LONG) \<times> world" where
  "os_SetFilePointer h lo hi method w =
     (case handles w h of
        None \<Rightarrow> ((INVALID_SET_FILE_POINTER, hi), set_last_error ERROR_INVALID_HANDLE w)
      | Some f \<Rightarrow>
          if method \<noteq> FILE_BEGIN \<and> method \<noteq> FILE_CURRENT \<and> method \<noteq> FILE_END then
            ((INVALID_SET_FILE_POINTER, hi), set_last_error ERROR_INVALID_PARAMETER w)
          else
            (let base = (if method = FILE_BEGIN then 0
                         else if method = FILE_CURRENT then int (of_pos f)
                         else int (length (contents w f)));
                 target = base + join_distance lo hi
             in if target < 0 then
                  ((INVALID_SET_FILE_POINTER, hi), set_last_error ERROR_NEGATIVE_SEEK w)
                else if 2 ^ 63 \<le> target then
                  ((INVALID_SET_FILE_POINTER, hi), set_last_error ERROR_INVALID_PARAMETER w)
                else
                  (let w1 = w\<lparr>handles := (handles w)(h \<mapsto> f\<lparr>of_pos := nat target\<rparr>)\<rparr>;
                       low = (word_of_int target :: DWORD);
                       high = (word_of_int (target div 2 ^ 32) :: LONG)
                   in ((low, high),
                       if low = INVALID_SET_FILE_POINTER then set_last_error NO_ERROR w1
                       else w1))))"

text \<open>
  The reposition primitive has failed when it returned \<^verbatim>\<open>INVALID_SET_FILE_POINTER\<close> and
  the last error is not \<^verbatim>\<open>NO_ERROR\<close>, as the documentation of \<open>SetFilePointer\<close> asks a
  caller that passes the high part to test.
\<close>

definition SetFilePointer_failed :: "'w win32api \<Rightarrow> DWORD \<Rightarrow> 'w \<Rightarrow> bool" where
  "SetFilePointer_failed api retCode w =
     (retCode = INVALID_SET_FILE_POINTER \<and> fst (GetLastError api w) \<noteq> NO_ERROR)"

text \<open>
  \<open>ReadFile\<close> reads at the file pointer and advances it; at or beyond the end of the file
  it succeeds with no bytes. \<open>WriteFile\<close> writes at the file pointer, filling a gap
  before it with zeros, and advances it.
\<close>

definition os_ReadFile :: "HANDLE \<Rightarrow> DWORD \<Rightarrow> world \<Rightarrow> (BOOL \<times> byte list) \<times> world" where
  "os_ReadFile h n w =
     (case handles w h of
        None \<Rightarrow> ((FALSE, []), set_last_error ERROR_INVALID_HANDLE w)
      | Some f \<Rightarrow>
          if offline w then ((FALSE, []), set_last_error ERROR_NOT_READY w) else
          (let bytes = take (unat n) (drop (of_pos f) (contents w f))
           in ((TRUE, bytes),
               w\<lparr>handles := (handles w)(h \<mapsto> f\<lparr>of_pos := of_pos f + length bytes\<rparr>)\<rparr>)))"

definition os_WriteFile ::
    "HANDLE \<Rightarrow> byte list \<Rightarrow> DWORD \<Rightarrow> world \<Rightarrow> (BOOL \<times> DWORD) \<times> world" where
  "os_WriteFile h buf n w =
     (case handles w h of
        None \<Rightarrow> ((FALSE, 0), set_last_error ERROR_INVALID_HANDLE w)
      | Some f \<Rightarrow>
          if offline w then ((FALSE, 0), set_last_error ERROR_NOT_READY w) else
          (let bytes = take (unat n) buf;
               old = contents w f;
               before = take (of_pos f) old @ replicate (of_pos f - length old) 0;
               new = before @ bytes @ drop (of_pos f + length bytes) old
           in ((TRUE, of_nat (length bytes)),
               w\<lparr>files := (files w)(of_path f \<mapsto> new),
                 handles := (handles w)(h \<mapsto> f\<lparr>of_pos := of_pos f + length bytes\<rparr>)\<rparr>)))"

definition os_FlushFileBuffers :: "HANDLE \<Rightarrow> world \<Rightarrow> BOOL \<times> world" where
  "os_FlushFileBuffers h w =
     (if handles w h = None then (FALSE, set_last_error ERROR_INVALID_HANDLE w)
      else if offline w then (FALSE, set_last_error ERROR_NOT_READY w)
      else (TRUE, w))"

text \<open>
  The enumeration of a directory. The only pattern the source passes is a directory
  followed by \<^verbatim>\<open>\*.*\<close>, which matches every entry; \<open>FindFirstFile\<close> yields the first
  name and a search handle on the names that remain, \<open>FindNextFile\<close> yields the next name
  or fails with \<^verbatim>\<open>ERROR_NO_MORE_FILES\<close>.
\<close>

definition all_files_pattern :: string where
  "all_files_pattern = [CHR 0x5C] @ ''*.*''"

definition pattern_dir :: "string \<Rightarrow> string option" where
  "pattern_dir pat =
     (if length all_files_pattern \<le> length pat
         \<and> drop (length pat - length all_files_pattern) pat = all_files_pattern
      then Some (take (length pat - length all_files_pattern) pat) else None)"

definition os_FindFirstFile :: "string \<Rightarrow> world \<Rightarrow> (HANDLE \<times> string) \<times> world" where
  "os_FindFirstFile pat w =
     (case pattern_dir pat of
        None \<Rightarrow> ((INVALID_HANDLE_VALUE, []), set_last_error ERROR_INVALID_PARAMETER w)
      | Some dir \<Rightarrow>
          (case dirs w dir of
             None \<Rightarrow> ((INVALID_HANDLE_VALUE, []), set_last_error ERROR_PATH_NOT_FOUND w)
           | Some [] \<Rightarrow> ((INVALID_HANDLE_VALUE, []), set_last_error ERROR_FILE_NOT_FOUND w)
           | Some (name # names) \<Rightarrow>
               ((next_handle w, name),
                w\<lparr>searches := (searches w)(next_handle w \<mapsto> names),
                  next_handle := next_handle w + 1\<rparr>)))"

definition os_FindNextFile :: "HANDLE \<Rightarrow> world \<Rightarrow> string option \<times> world" where
  "os_FindNextFile h w =
     (case searches w h of
        None \<Rightarrow> (None, set_last_error ERROR_INVALID_HANDLE w)
      | Some [] \<Rightarrow> (None, set_last_error ERROR_NO_MORE_FILES w)
      | Some (name # names) \<Rightarrow> (Some name, w\<lparr>searches := (searches w)(h \<mapsto> names)\<rparr>))"

definition os_FindClose :: "HANDLE \<Rightarrow> world \<Rightarrow> BOOL \<times> world" where
  "os_FindClose h w =
     (if searches w h = None then (FALSE, set_last_error ERROR_INVALID_HANDLE w)
      else (TRUE, w\<lparr>searches := (searches w)(h := None)\<rparr>))"

definition os_Mutex_Lock :: "nat \<Rightarrow> world \<Rightarrow> world" where
  "os_Mutex_Lock m w = w\<lparr>held := m # held w\<rparr>"

definition os_Mutex_Unlock :: "nat \<Rightarrow> world \<Rightarrow> world" where
  "os_Mutex_Unlock m w = w\<lparr>held := removeAll m (held w)\<rparr>"

definition win32 :: "world win32api" where
  "win32 =
     \<lparr> GetLastError = os_GetLastError,
       FormatMessage = os_FormatMessage,
       LocalFree = os_LocalFree,
       CreateFile = os_CreateFile,
       CloseHandle = os_CloseHandle,
       SetFilePointer = os_SetFilePointer,
       ReadFile = os_ReadFile,
       WriteFile = os_WriteFile,
       FlushFileBuffers = os_FlushFileBuffers,
       FindFirstFile = os_FindFirstFile,
       FindNextFile = os_FindNextFile,
       FindClose = os_FindClose,
       Mutex_Lock = os_Mutex_Lock,
       Mutex_Unlock = os_Mutex_Unlock \<rparr>"

text \<open>
  A system with one regular file \<^verbatim>\<open>db\000001.log\<close> of three bytes in the directory \<^verbatim>\<open>db\<close>,
  nothing open and no error pending. The enumeration of a directory other than a root
  starts with the entries \<^verbatim>\<open>.\<close> and \<^verbatim>\<open>..\<close>.
\<close>

definition log_name :: string where
  "log_name = ''db'' @ [CHR 0x5C] @ ''000001.log''"

definition world0 :: world where
  "world0 =
     \<lparr> files = [log_name \<mapsto> [1, 2, 3]],
       dirs = [''db'' \<mapsto> [''.'', ''..'', ''000001.log'']],
       handles = Map.empty,
       searches = Map.empty,
       next_handle = 4,
       allocated = [],
       next_buffer = 4096,
       held = [],
       offline = False,
       last_error = 0 \<rparr>"

subsection \<open>Concrete objects\<close>

text \<open>
  The file object that \<open>Win32Env_NewWritableFile\<close> and \<open>Win32Env_NewSequentialFile\<close> return
  for \<^verbatim>\<open>db\000001.log\<close> in \<open>world0\<close>, the system after that call, the same system with its
  device not ready, and the name of a file that does not exist.
\<close>

definition log_file :: Win32FileBase where
  "log_file = \<lparr>filename = log_name, hFile = 4\<rparr>"

definition world1 :: world where
  "world1 = world0\<lparr>handles := [4 \<mapsto> \<lparr>of_path = log_name, of_pos = 0\<rparr>], next_handle := 5\<rparr>"

definition world1_offline :: world where
  "world1_offline = world1\<lparr>offline := True\<rparr>"

definition manifest_name :: string where
  "manifest_name = ''db'' @ [CHR 0x5C] @ ''MANIFEST-000002''"

text \<open>
  A system that answers as \<open>win32\<close> does, except that its \<open>WriteFile\<close> stores one byte of
  the buffer at most and reports the number of bytes it stored.
\<close>

definition win32_short_write :: "world win32api" where
  "win32_short_write = win32\<lparr>WriteFile := (\<lambda>h buf n. os_WriteFile h buf (min n 1))\<rparr>"

text \<open>
  A random-access reader on the same handle, with the mutex number 0, and a system whose
  directory \<^verbatim>\<open>db\<close> enumerates two files and no pseudo-entries (as the root directory of a
  volume does).
\<close>

definition log_reader :: Win32RandomAccessFile where
  "log_reader = \<lparr>filename = log_name, hFile = 4, mu = 0\<rparr>"

definition world_flat :: world where
  "world_flat = world0\<lparr>dirs := [''db'' \<mapsto> [''a.txt'', ''b.txt'']]\<rparr>"

section \<open>Properties\<close>

subsection \<open>Unfolding the definitions\<close>

lemmas const_defs =
  FALSE_def TRUE_def INVALID_HANDLE_VALUE_def INVALID_SET_FILE_POINTER_def
  FILE_BEGIN_def FILE_CURRENT_def FILE_END_def
  CREATE_NEW_def CREATE_ALWAYS_def OPEN_EXISTING_def OPEN_ALWAYS_def TRUNCATE_EXISTING_def
  NO_ERROR_def ERROR_FILE_NOT_FOUND_def ERROR_PATH_NOT_FOUND_def ERROR_INVALID_HANDLE_def
  ERROR_NO_MORE_FILES_def ERROR_NOT_READY_def ERROR_FILE_EXISTS_def
  ERROR_INVALID_PARAMETER_def ERROR_NEGATIVE_SEEK_def ERROR_ALREADY_EXISTS_def
  ERROR_MR_MID_NOT_FOUND_def MAX_ERRORTXT_LEN_def

lemmas os_defs =
  win32_def set_last_error_def os_GetLastError_def system_message_def os_FormatMessage_def
  os_LocalFree_def open_handle_def os_CreateFile_def os_CloseHandle_def contents_def
  join_distance_def os_SetFilePointer_def os_ReadFile_def os_WriteFile_def
  os_FlushFileBuffers_def all_files_pattern_def pattern_dir_def os_FindFirstFile_def
  os_FindNextFile_def os_FindClose_def os_Mutex_Lock_def os_Mutex_Unlock_def

lemmas traced_defs = traced_def record_call_def record_step_def

lemmas scenario_defs =
  world0_def world1_def world1_offline_def world_flat_def log_file_def log_reader_def
  log_name_def manifest_name_def

subsection \<open>The error translator\<close>

text \<open>
  A 32-bit error code printed by \<^verbatim>\<open>%d\<close> has at most eleven characters, so the fallback
  message always fits the buffer of \<^verbatim>\<open>MAX_ERRORTXT_LEN\<close> characters.
\<close>

lemma length_dec_nat: "n < 10 ^ Suc k \<Longrightarrow> length (dec_nat n) \<le> Suc k"
proof (induction k arbitrary: n)
  case 0
  then show ?case by (subst dec_nat.simps) simp
next
  case (Suc k)
  show ?case
  proof (cases "n < 10")
    case True
    then show ?thesis by (subst dec_nat.simps) simp
  next
    case False
    from Suc.prems have "n div 10 < 10 ^ Suc k" by simp
    then have "length (dec_nat (n div 10)) \<le> Suc k" by (rule Suc.IH)
    with False show ?thesis by (subst dec_nat.simps) simp
  qed
qed

lemma length_printf_d: "length (printf_d (sint (code :: 32 word))) \<le> 11"
proof -
  have lo: "- (2 ^ 31) \<le> sint code" and hi: "sint code < 2 ^ 31"
    using sint_range_size [of code] by (simp_all add: word_size)
  have "nat \<bar>sint code\<bar> < 10 ^ Suc 9" using lo hi by simp
  then have "length (dec_nat (nat \<bar>sint code\<bar>)) \<le> 10"
    using length_dec_nat [of "nat \<bar>sint code\<bar>" 9] by simp
  moreover have "sint code < 0 \<Longrightarrow> nat (- sint code) = nat \<bar>sint code\<bar>" by simp
  moreover have "\<not> sint code < 0 \<Longrightarrow> nat (sint code) = nat \<bar>sint code\<bar>" by simp
  ultimately show ?thesis by (auto simp: printf_d_def)
qed

lemma fallback_fits:
  "take (MAX_ERRORTXT_LEN - 1) (''unknow system error '' @ printf_d (sint (code :: 32 word)))
     = ''unknow system error '' @ printf_d (sint code)"
  using length_printf_d [of code] by (simp add: MAX_ERRORTXT_LEN_def)

lemma Win32IOError_is_IOError:
  "\<exists>detail. fst (Win32IOError api ctx code w) = IOError ctx detail"
  by (simp add: Win32IOError_def split: prod.splits option.splits)

lemma Win32IOError_not_ok: "\<not> ok (fst (Win32IOError api ctx code w))"
  using Win32IOError_is_IOError [of api ctx code w] by auto

text \<open>
  Claim C9 says that the fallback message is \<^verbatim>\<open>unknown system error <code>\<close>. The source
  prints \<^verbatim>\<open>unknow system error %d\<close>, as its own comment announces: for the code
  \<^verbatim>\<open>0x20000001\<close>, which has no system message, the detail is
  \<^verbatim>\<open>unknow system error 536870913\<close> and not \<^verbatim>\<open>unknown system error 536870913\<close>.
\<close>

theorem Win32IOError_fallback_counterexample:
  "fst (Win32IOError win32 ''db'' 0x20000001 world0)
     = IOError ''db'' ''unknow system error 536870913''
   \<and> fst (Win32IOError win32 ''db'' 0x20000001 world0)
     \<noteq> IOError ''db'' ''unknown system error 536870913''"
  by (simp add: Win32IOError_def os_defs const_defs world0_def printf_d_def digit_char_def
      dec_nat.simps)

text \<open>
  Claim C9, amended: for every system, context and error code, the translator calls
  \<open>FormatMessage\<close> once. When no system message is available it returns the failure
  \<open>IOError context detail\<close> whose detail is exactly \<^verbatim>\<open>unknow system error\<close>, a space and
  the code as a signed decimal number, and it makes no other call. When a message is
  available it returns \<open>IOError context message\<close>, and its only other call, made before it
  returns, is \<open>LocalFree\<close> on the buffer that \<open>FormatMessage\<close> allocated.
\<close>

theorem Win32IOError_fallback_and_release:
  "Win32IOError (traced api) context code (w, []) =
     (case FormatMessage api code w of
        (None, w1) \<Rightarrow>
          (IOError context (''unknow system error '' @ printf_d (sint code)),
           (w1, [Call_FormatMessage code]))
      | (Some (buffer, message), w1) \<Rightarrow>
          (IOError context message,
           (LocalFree api buffer w1, [Call_FormatMessage code, Call_LocalFree buffer])))"
  unfolding Win32IOError_def fallback_fits
  by (simp add: traced_defs split: prod.splits option.splits)

theorem Win32IOError_fallback_and_release_witness:
  "fst (Win32IOError (traced win32) ''db'' 0x20000001 (world0, []))
     = IOError ''db'' ''unknow system error 536870913''
   \<and> snd (snd (Win32IOError (traced win32) ''db'' 0x20000001 (world0, [])))
     = [Call_FormatMessage 0x20000001]
   \<and> fst (Win32IOError (traced win32) ''db'' 2 (world0, []))
     = IOError ''db'' ''The system cannot find the file specified.''
   \<and> snd (snd (Win32IOError (traced win32) ''db'' 2 (world0, [])))
     = [Call_FormatMessage 2, Call_LocalFree 4096]
   \<and> allocated (fst (snd (Win32IOError (traced win32) ''db'' 2 (world0, [])))) = []"
  using Win32IOError_fallback_and_release [of win32 "''db''" "0x20000001" world0]
    Win32IOError_fallback_and_release [of win32 "''db''" 2 world0]
  by (simp add: os_defs const_defs world0_def printf_d_def digit_char_def dec_nat.simps)

subsection \<open>Creating a file for writing\<close>

lemma NewWritableFile_opens_log:
  "Win32Env_NewWritableFile win32 log_name world0 = ((OK, Some log_file), world1)"
  by (simp add: Win32Env_NewWritableFile_def os_defs const_defs scenario_defs)

lemma NewSequentialFile_opens_log:
  "Win32Env_NewSequentialFile win32 log_name world0 = ((OK, Some log_file), world1)"
  by (simp add: Win32Env_NewSequentialFile_def os_defs const_defs scenario_defs)

text \<open>On the reference system the call never changes the bytes of any file.\<close>

lemma NewWritableFile_files_unchanged:
  "files (snd (Win32Env_NewWritableFile win32 fname w)) = files w"
  by (simp add: Win32Env_NewWritableFile_def Win32IOError_def os_defs const_defs
      split: prod.splits option.splits)

text \<open>
  Claim C1 (NewWritableFile truncates an existing file, creates a missing one and never
  returns success with the old contents in place) does not hold of the code, which opens
  the file with \<^verbatim>\<open>OPEN_EXISTING\<close>: on the existing file \<^verbatim>\<open>db\000001.log\<close> with the bytes
  1, 2, 3 the call returns success and a writer while the file still holds 1, 2, 3; on the
  missing file \<^verbatim>\<open>db\MANIFEST-000002\<close> it returns an error, no writer, and creates nothing.
\<close>

theorem NewWritableFile_keeps_existing_contents:
  "fst (Win32Env_NewWritableFile win32 log_name world0) = (OK, Some log_file)
   \<and> files world0 log_name = Some [1, 2, 3]
   \<and> files (snd (Win32Env_NewWritableFile win32 log_name world0)) log_name = Some [1, 2, 3]
   \<and> files world0 manifest_name = None
   \<and> fst (Win32Env_NewWritableFile win32 manifest_name world0)
       = (IOError manifest_name ''The system cannot find the file specified.'', None)
   \<and> files (snd (Win32Env_NewWritableFile win32 manifest_name world0)) manifest_name = None"
  by (simp add: Win32Env_NewWritableFile_def Win32IOError_def os_defs const_defs scenario_defs)

subsection \<open>The writer\<close>

text \<open>Every call of Close returns success, and a valid handle makes it do nothing at all.\<close>

lemma Close_returns_OK: "fst (fst (Win32WritableFile_Close api this w)) = OK"
  by (simp add: Win32WritableFile_Close_def split: prod.splits)

lemma Close_valid_handle_no_effect:
  "hFile this \<noteq> INVALID_HANDLE_VALUE \<Longrightarrow>
   Win32WritableFile_Close (traced api) this (w, []) = ((OK, this), (w, []))"
  by (simp add: Win32WritableFile_Close_def)

text \<open>The destructor of the base class, which tests the handle the other way, closes it.\<close>

lemma destructor_closes_log:
  "handles (Win32FileBase_destructor win32 log_file world1) (hFile log_file) = None"
  by (simp add: Win32FileBase_destructor_def os_defs const_defs scenario_defs)

text \<open>
  Claim C2 (the first Close of a writer with a valid handle releases the handle and marks
  it invalid) does not hold of the code, which calls \<open>CloseHandle\<close> only when the handle
  is already \<^verbatim>\<open>INVALID_HANDLE_VALUE\<close>: for the writer just opened on \<^verbatim>\<open>db\000001.log\<close>,
  whose handle is valid and open, Close returns success, makes no call of the API, and
  leaves the system and the object as they were, the handle still open and still stored.
\<close>

theorem Close_leaves_valid_handle_open:
  "hFile log_file \<noteq> INVALID_HANDLE_VALUE
   \<and> handles world1 (hFile log_file) = Some \<lparr>of_path = log_name, of_pos = 0\<rparr>
   \<and> Win32WritableFile_Close (traced win32) log_file (world1, [])
       = ((OK, log_file), (world1, []))
   \<and> handles (snd (Win32WritableFile_Close win32 log_file world1)) (hFile log_file)
       = Some \<lparr>of_path = log_name, of_pos = 0\<rparr>"
  by (simp add: Win32WritableFile_Close_def os_defs const_defs scenario_defs)

text \<open>
  Claim C3 says that Append returns an error also when the system reports fewer bytes
  written than the data has. The source does not look at \<^verbatim>\<open>numberOfBytesWritten\<close>: on a
  system whose \<open>WriteFile\<close> stores one byte and reports success with one byte written,
  Append of the three bytes 7, 8, 9 returns success, and the file then holds 7, 2, 3.
\<close>

theorem Append_short_write_counterexample:
  "fst (WriteFile win32_short_write (hFile log_file) [7, 8, 9] 3 world1) = (TRUE, 1)
   \<and> unat (1 :: DWORD) < length [7, 8, 9 :: byte]
   \<and> fst (Win32WritableFile_Append win32_short_write log_file [7, 8, 9] world1) = OK
   \<and> files (snd (Win32WritableFile_Append win32_short_write log_file [7, 8, 9] world1)) log_name
       = Some [7, 2, 3]"
  by (simp add: Win32WritableFile_Append_def win32_short_write_def os_defs const_defs
      scenario_defs)

text \<open>
  Claim C3, amended: for every call of Append, if the write primitive of the system
  reports failure, Append returns a translated error, an \<open>IOError\<close> whose context is the
  name of the file; otherwise it returns success, whatever number of bytes the primitive
  reports written.
\<close>

theorem Append_status:
  "\<exists>detail. fst (Win32WritableFile_Append api this data w) =
     (if fst (fst (WriteFile api (hFile this) data (of_nat (length data)) w)) = FALSE
      then IOError (filename this) detail else OK)"
proof (cases "fst (fst (WriteFile api (hFile this) data (of_nat (length data)) w)) = FALSE")
  case True
  let ?e = "GetLastError api (snd (WriteFile api (hFile this) data (of_nat (length data)) w))"
  obtain detail where
    "fst (Win32IOError api (filename this) (fst ?e) (snd ?e)) = IOError (filename this) detail"
    using Win32IOError_is_IOError [of api "filename this" "fst ?e" "snd ?e"] by blast
  with True show ?thesis
    by (intro exI [of _ detail])
      (simp add: Win32WritableFile_Append_def Let_def case_prod_unfold)
next
  case False
  then show ?thesis
    by (simp add: Win32WritableFile_Append_def Let_def case_prod_unfold)
qed

theorem Append_status_witness:
  "fst (Win32WritableFile_Append win32 log_file [7, 8, 9] world1) = OK
   \<and> files (snd (Win32WritableFile_Append win32 log_file [7, 8, 9] world1)) log_name
       = Some [7, 8, 9]
   \<and> fst (Win32WritableFile_Append win32 log_file [7, 8, 9] world1_offline)
       = IOError log_name ''The device is not ready.''"
  using Append_status [of win32 log_file "[7, 8, 9]" world1]
    Append_status [of win32 log_file "[7, 8, 9]" world1_offline]
  by (simp add: Win32WritableFile_Append_def Win32IOError_def os_defs const_defs scenario_defs)

text \<open>Sync returns success on every system, whatever \<open>FlushFileBuffers\<close> answers.\<close>

lemma Sync_returns_OK: "fst (Win32WritableFile_Sync api this w) = OK"
  by (simp add: Win32WritableFile_Sync_def split: prod.splits)

text \<open>
  Claim C4 (Sync returns a translated error when the flush primitive fails) does not hold
  of the code, which drops the result of \<open>FlushFileBuffers\<close>: with the device not ready
  the primitive returns FALSE for the open writer and Sync returns success, whereas Append,
  which tests the result of its primitive, returns the translated error there.
\<close>

theorem Sync_ok_when_flush_fails:
  "fst (FlushFileBuffers win32 (hFile log_file) world1_offline) = FALSE
   \<and> fst (GetLastError win32 (snd (FlushFileBuffers win32 (hFile log_file) world1_offline)))
       = ERROR_NOT_READY
   \<and> fst (Win32WritableFile_Sync win32 log_file world1_offline) = OK"
  by (simp add: Win32WritableFile_Sync_def os_defs const_defs scenario_defs)

subsection \<open>Repositioning\<close>

text \<open>Splitting the offset into two DWORDs loses nothing: the system joins them back.\<close>

lemma low_mask: "(0xffffffff :: 64 word) = mask 32"
  by (simp add: mask_eq_decr_exp)

lemma join_split_offset: "join_distance (LODWORD offset) (HIDWORD offset) = sint offset"
proof -
  have "push_bit 32 (ucast (HIDWORD offset) :: 64 word) OR (ucast (LODWORD offset) :: 64 word)
      = offset"
    unfolding LODWORD_def HIDWORD_def low_mask
    by (rule bit_word_eqI) (auto simp add: bit_simps)
  then show ?thesis by (simp add: join_distance_def)
qed

lemmas os_seek_defs =
  win32_def set_last_error_def os_GetLastError_def system_message_def os_FormatMessage_def
  os_LocalFree_def contents_def os_SetFilePointer_def os_ReadFile_def os_Mutex_Lock_def
  os_Mutex_Unlock_def join_split_offset

text \<open>The code reports success exactly when the DWORD returned by the primitive is not 0.\<close>

lemma apiSetFilePointer_ok_iff:
  "ok (fst (apiSetFilePointer api this offset moveMethod w))
     = (fst (fst (SetFilePointer api (hFile this) (LODWORD offset) (HIDWORD offset)
                    moveMethod w)) \<noteq> 0)"
  by (auto simp add: apiSetFilePointer_def FALSE_def Win32IOError_not_ok split: prod.splits)

text \<open>
  Claim C7 (the reposition operation returns an error exactly when the reposition
  primitive fails and success exactly when it succeeds) does not hold of the code, which
  tests \<^verbatim>\<open>retCode == FALSE\<close> where the primitive signals failure by
  \<^verbatim>\<open>INVALID_SET_FILE_POINTER\<close>. Moving to offset 0 from the start of the open file
  succeeds in the system, which returns the low DWORD 0 of the new position, and the code
  returns an \<open>IOError\<close> carrying the message of error 0. Moving to the offset
  \<^verbatim>\<open>0xFFFFFFFFFFFFFFFF\<close>, the distance -1 from the start, fails in the system with
  \<^verbatim>\<open>ERROR_NEGATIVE_SEEK\<close>, and the code returns success.
\<close>

theorem apiSetFilePointer_misreports:
  "fst (fst (SetFilePointer win32 (hFile log_file) (LODWORD 0) (HIDWORD 0) FILE_BEGIN world1)) = 0
   \<and> \<not> SetFilePointer_failed win32 0
         (snd (SetFilePointer win32 (hFile log_file) (LODWORD 0) (HIDWORD 0) FILE_BEGIN world1))
   \<and> fst (apiSetFilePointer win32 log_file 0 FILE_BEGIN world1)
       = IOError log_name ''The operation completed successfully.''
   \<and> fst (fst (SetFilePointer win32 (hFile log_file) (LODWORD (- 1)) (HIDWORD (- 1)) FILE_BEGIN
         world1)) = INVALID_SET_FILE_POINTER
   \<and> SetFilePointer_failed win32 INVALID_SET_FILE_POINTER
         (snd (SetFilePointer win32 (hFile log_file) (LODWORD (- 1)) (HIDWORD (- 1)) FILE_BEGIN
            world1))
   \<and> fst (apiSetFilePointer win32 log_file (- 1) FILE_BEGIN world1) = OK"
  by (simp add: apiSetFilePointer_def SetFilePointer_failed_def Win32IOError_def os_seek_defs
      const_defs scenario_defs)

subsection \<open>The sequential reader\<close>

text \<open>
  Claim C6 (Skip(n) advances the cursor by n bytes and returns success, and stops exactly
  at the end of the file when fewer than n bytes remain) does not hold of the code, which
  passes n to the reposition primitive and nothing else. On the file of three bytes, just
  opened, Skip(10) returns success and leaves the file pointer at 10, beyond the end of the
  file at 3, and the next Read returns no byte; Skip(0) at the start of the file returns
  an \<open>IOError\<close>, by the test of the result in \<open>apiSetFilePointer\<close>.
\<close>

theorem Skip_beyond_end_of_file:
  "length (contents world1 \<lparr>of_path = log_name, of_pos = 0\<rparr>) = 3
   \<and> Win32SequentialFile_Skip win32 log_file 10 world1
       = (OK, world1\<lparr>handles := [4 \<mapsto> \<lparr>of_path = log_name, of_pos = 10\<rparr>]\<rparr>)
   \<and> fst (Win32SequentialFile_Read win32 log_file 1
            (snd (Win32SequentialFile_Skip win32 log_file 10 world1))) = (OK, Some [])
   \<and> fst (Win32SequentialFile_Skip win32 log_file 0 world1)
       = IOError log_name ''The operation completed successfully.''"
  by (simp add: Win32SequentialFile_Skip_def Win32SequentialFile_Read_def apiSetFilePointer_def
      Win32IOError_def os_seek_defs const_defs scenario_defs)

subsection \<open>The random-access reader\<close>

text \<open>What the traced system records for the error translator and for repositioning.\<close>

lemma traced_Win32IOError:
  "\<exists>tr. list_all is_error_translation tr \<and>
     Win32IOError (traced api) ctx code (w, t)
       = (fst (Win32IOError api ctx code w), (snd (Win32IOError api ctx code w), t @ tr))"
proof (cases "FormatMessage api code w")
  case (Pair r w1)
  show ?thesis
  proof (cases r)
    case None
    with Pair have "Win32IOError (traced api) ctx code (w, t)
       = (fst (Win32IOError api ctx code w),
          (snd (Win32IOError api ctx code w), t @ [Call_FormatMessage code]))"
      by (simp add: Win32IOError_def traced_defs)
    then show ?thesis by (intro exI [of _ "[Call_FormatMessage code]"]) simp
  next
    case (Some bm)
    obtain buffer message where bm: "bm = (buffer, message)" by (cases bm)
    with Pair Some have "Win32IOError (traced api) ctx code (w, t)
       = (fst (Win32IOError api ctx code w), (snd (Win32IOError api ctx code w),
            t @ [Call_FormatMessage code, Call_LocalFree buffer]))"
      by (simp add: Win32IOError_def traced_defs)
    then show ?thesis
      by (intro exI [of _ "[Call_FormatMessage code, Call_LocalFree buffer]"]) simp
  qed
qed

lemma traced_GetLastError:
  "GetLastError (traced api) (w, t)
     = (fst (GetLastError api w), (snd (GetLastError api w), t @ [Call_GetLastError]))"
  by (simp add: traced_defs case_prod_unfold)

lemma traced_apiSetFilePointer:
  "\<exists>tr. list_all is_error_translation tr
     \<and> (ok (fst (apiSetFilePointer api this offset moveMethod w)) \<longrightarrow> tr = [])
     \<and> apiSetFilePointer (traced api) this offset moveMethod (w, t)
       = (fst (apiSetFilePointer api this offset moveMethod w),
          (snd (apiSetFilePointer api this offset moveMethod w),
           t @ [Call_SetFilePointer (hFile this) (LODWORD offset) (HIDWORD offset) moveMethod]
             @ tr))"
proof -
  let ?c = "Call_SetFilePointer (hFile this) (LODWORD offset) (HIDWORD offset) moveMethod"
  let ?r = "SetFilePointer api (hFile this) (LODWORD offset) (HIDWORD offset) moveMethod w"
  have call: "SetFilePointer (traced api) (hFile this) (LODWORD offset) (HIDWORD offset)
      moveMethod (w, t) = (fst ?r, (snd ?r, t @ [?c]))"
    by (simp add: traced_defs case_prod_unfold)
  show ?thesis
  proof (cases "fst (fst ?r) = FALSE")
    case True
    let ?e = "GetLastError api (snd ?r)"
    obtain tr where tr: "list_all is_error_translation tr"
      "Win32IOError (traced api) (filename this) (fst ?e) (snd ?e, t @ [?c, Call_GetLastError])
         = (fst (Win32IOError api (filename this) (fst ?e) (snd ?e)),
            (snd (Win32IOError api (filename this) (fst ?e) (snd ?e)),
             (t @ [?c, Call_GetLastError]) @ tr))"
      using traced_Win32IOError
        [where api = api and ctx = "filename this" and code = "fst ?e" and w = "snd ?e"
           and t = "t @ [?c, Call_GetLastError]"]
      by blast
    from True have "\<not> ok (fst (apiSetFilePointer api this offset moveMethod w))"
      by (simp add: apiSetFilePointer_def Let_def case_prod_unfold Win32IOError_not_ok)
    with True call tr show ?thesis
      by (intro exI [of _ "Call_GetLastError # tr"])
        (simp add: apiSetFilePointer_def Let_def case_prod_unfold traced_GetLastError)
  next
    case False
    with call show ?thesis
      by (intro exI [of _ "[]"]) (simp add: apiSetFilePointer_def Let_def case_prod_unfold)
  qed
qed

text \<open>
  Claim C5: for every system, reader, offset and size, the calls that Read makes are, in
  this order: the acquisition of the guard, the reposition primitive with the offset split
  in two and the move method \<^verbatim>\<open>FILE_BEGIN\<close>, and then
  \<^item> when the reposition step reports success: the read primitive, the release of the
    guard, and after it at most calls of the error translator;
  \<^item> when the reposition step reports an error: the calls of the error translator and,
    last of all, the release of the guard; the status returned is the error of the
    reposition step and nothing is stored in the result.
  So the guard is acquired once and released once on every path, the read primitive runs
  only between the two, and the traced run returns what the plain run returns.
\<close>

theorem RandomAccessFile_Read_guard:
  "\<exists>translation. list_all is_error_translation translation \<and>
     snd (snd (Win32RandomAccessFile_Read (traced api) this offset n (w, []))) =
       (if ok (fst (apiSetFilePointer api this offset FILE_BEGIN (Mutex_Lock api (mu this) w)))
        then [Call_Mutex_Lock (mu this),
              Call_SetFilePointer (hFile this) (LODWORD offset) (HIDWORD offset) FILE_BEGIN,
              Call_ReadFile (hFile this) (of_nat n),
              Call_Mutex_Unlock (mu this)] @ translation
        else [Call_Mutex_Lock (mu this),
              Call_SetFilePointer (hFile this) (LODWORD offset) (HIDWORD offset) FILE_BEGIN]
             @ translation @ [Call_Mutex_Unlock (mu this)])
     \<and> fst (Win32RandomAccessFile_Read (traced api) this offset n (w, []))
         = fst (Win32RandomAccessFile_Read api this offset n w)
     \<and> (if ok (fst (apiSetFilePointer api this offset FILE_BEGIN (Mutex_Lock api (mu this) w)))
        then True
        else fst (Win32RandomAccessFile_Read api this offset n w)
          = (fst (apiSetFilePointer api this offset FILE_BEGIN (Mutex_Lock api (mu this) w)),
             None))"
proof -
  let ?lock = "Call_Mutex_Lock (mu this)"
  let ?seek = "Call_SetFilePointer (hFile this) (LODWORD offset) (HIDWORD offset) FILE_BEGIN"
  let ?read = "Call_ReadFile (hFile this) (of_nat n)"
  let ?unlock = "Call_Mutex_Unlock (mu this)"
  let ?w0 = "Mutex_Lock api (mu this) w"
  let ?st = "fst (apiSetFilePointer api this offset FILE_BEGIN ?w0)"
  let ?w1 = "snd (apiSetFilePointer api this offset FILE_BEGIN ?w0)"
  obtain tr where tr: "list_all is_error_translation tr" "ok ?st \<longrightarrow> tr = []"
    and seek: "apiSetFilePointer (traced api) this offset FILE_BEGIN (?w0, [?lock])
       = (?st, (?w1, [?lock] @ [?seek] @ tr))"
    using traced_apiSetFilePointer [of api this offset FILE_BEGIN ?w0 "[?lock]"] by blast
  have lock: "Mutex_Lock (traced api) (mu this) (w, []) = (?w0, [?lock])"
    by (simp add: traced_defs)
  show ?thesis
  proof (cases "ok ?st")
    case False
    with lock seek tr show ?thesis
      by (intro exI [of _ tr])
        (simp add: Win32RandomAccessFile_Read_def Let_def case_prod_unfold traced_defs)
  next
    case True
    let ?r = "ReadFile api (hFile this) (of_nat n) ?w1"
    let ?w3 = "Mutex_Unlock api (mu this) (snd ?r)"
    from True tr seek
    have seek': "apiSetFilePointer (traced api) this offset FILE_BEGIN (?w0, [?lock])
       = (?st, (?w1, [?lock, ?seek]))" by simp
    have read: "ReadFile (traced api) (hFile this) (of_nat n) (?w1, [?lock, ?seek])
       = (fst ?r, (snd ?r, [?lock, ?seek, ?read]))"
      by (simp add: traced_defs case_prod_unfold)
    have unlock: "Mutex_Unlock (traced api) (mu this) (snd ?r, [?lock, ?seek, ?read])
       = (?w3, [?lock, ?seek, ?read, ?unlock])"
      by (simp add: traced_defs)
    show ?thesis
    proof (cases "fst (fst ?r) = FALSE")
      case False
      with True lock seek' read unlock show ?thesis
        by (intro exI [of _ "[]"])
          (simp add: Win32RandomAccessFile_Read_def Let_def case_prod_unfold)
    next
      case failed: True
      let ?e = "GetLastError api ?w3"
      obtain tr2 where tr2: "list_all is_error_translation tr2"
        "Win32IOError (traced api) (filename this) (fst ?e)
           (snd ?e, [?lock, ?seek, ?read, ?unlock, Call_GetLastError])
         = (fst (Win32IOError api (filename this) (fst ?e) (snd ?e)),
            (snd (Win32IOError api (filename this) (fst ?e) (snd ?e)),
             [?lock, ?seek, ?read, ?unlock, Call_GetLastError] @ tr2))"
        using traced_Win32IOError
          [where api = api and ctx = "filename this" and code = "fst ?e" and w = "snd ?e"
             and t = "[?lock, ?seek, ?read, ?unlock, Call_GetLastError]"]
        by blast
      with True failed lock seek' read unlock show ?thesis
        by (intro exI [of _ "Call_GetLastError # tr2"])
          (simp add: Win32RandomAccessFile_Read_def Let_def case_prod_unfold
             traced_GetLastError)
    qed
  qed
qed

theorem RandomAccessFile_Read_guard_witness:
  "fst (Win32RandomAccessFile_Read (traced win32) log_reader 1 2 (world1, []))
     = (OK, Some [2, 3])
   \<and> snd (snd (Win32RandomAccessFile_Read (traced win32) log_reader 1 2 (world1, [])))
     = [Call_Mutex_Lock 0, Call_SetFilePointer 4 1 0 FILE_BEGIN, Call_ReadFile 4 2,
        Call_Mutex_Unlock 0]
   \<and> held (fst (snd (Win32RandomAccessFile_Read (traced win32) log_reader 1 2 (world1, []))))
     = []
   \<and> fst (Win32RandomAccessFile_Read (traced win32) log_reader 0 2 (world1, []))
     = (IOError log_name ''The operation completed successfully.'', None)
   \<and> snd (snd (Win32RandomAccessFile_Read (traced win32) log_reader 0 2 (world1, [])))
     = [Call_Mutex_Lock 0, Call_SetFilePointer 4 0 0 FILE_BEGIN, Call_GetLastError,
        Call_FormatMessage 0, Call_LocalFree 4096, Call_Mutex_Unlock 0]
   \<and> held (fst (snd (Win32RandomAccessFile_Read (traced win32) log_reader 0 2 (world1, []))))
     = []"
  using RandomAccessFile_Read_guard [of win32 log_reader 1 2 world1]
    RandomAccessFile_Read_guard [of win32 log_reader 0 2 world1]
  by (simp add: Win32RandomAccessFile_Read_def apiSetFilePointer_def Win32IOError_def
      LODWORD_def HIDWORD_def join_distance_def traced_defs os_seek_defs Let_def const_defs
      scenario_defs)

subsection \<open>Listing a directory\<close>

text \<open>
  Whenever the loop returns, the entry it was entered with is neither \<^verbatim>\<open>.\<close> nor \<^verbatim>\<open>..\<close>:
  on such an entry the \<^verbatim>\<open>continue\<close> repeats the iteration with nothing changed.
\<close>

lemma GetChildren_loop_Some_not_pseudo:
  assumes "GetChildren_loop api hFind cFileName result w = Some y"
  shows "cFileName \<noteq> ''.'' \<and> cFileName \<noteq> ''..''"
  using assms
proof (rule GetChildren_loop.raw_induct
    [rotated 1,
     where P = "\<lambda>api hFind cFileName result w y. cFileName \<noteq> ''.'' \<and> cFileName \<noteq> ''..''"])
  fix loop :: "'a win32api \<Rightarrow> HANDLE \<Rightarrow> string \<Rightarrow> string list \<Rightarrow> 'a
      \<Rightarrow> (string list \<times> 'a) option"
    and api hFind cFileName result w y
  assume IH: "\<And>api hFind cFileName result w y.
      loop api hFind cFileName result w = Some y
        \<Longrightarrow> cFileName \<noteq> ''.'' \<and> cFileName \<noteq> ''..''"
    and step: "(if cFileName = ''.'' then loop api hFind cFileName result w
      else if cFileName = ''..'' then loop api hFind cFileName result w
      else case FindNextFile api hFind w of
             (None, w1) \<Rightarrow> Some (result @ [cFileName], w1)
           | (Some next_name, w1) \<Rightarrow>
               loop api hFind next_name (result @ [cFileName]) w1) = Some y"
  show "cFileName \<noteq> ''.'' \<and> cFileName \<noteq> ''..''"
  proof (rule ccontr)
    assume pseudo: "\<not> (cFileName \<noteq> ''.'' \<and> cFileName \<noteq> ''..'')"
    then have "loop api hFind cFileName result w = Some y"
      using step by (auto split: if_splits)
    then have "cFileName \<noteq> ''.'' \<and> cFileName \<noteq> ''..''" by (rule IH)
    with pseudo show False by simp
  qed
qed

lemma GetChildren_loop_dot: "GetChildren_loop api hFind ''.'' result w = None"
  using GetChildren_loop_Some_not_pseudo [of api hFind "''.''" result w]
  by (cases "GetChildren_loop api hFind ''.'' result w") auto

lemma GetChildren_loop_dotdot: "GetChildren_loop api hFind ''..'' result w = None"
  using GetChildren_loop_Some_not_pseudo [of api hFind "''..''" result w]
  by (cases "GetChildren_loop api hFind ''..'' result w") auto

lemma GetChildren_loop_step:
  "cFileName \<noteq> ''.'' \<Longrightarrow> cFileName \<noteq> ''..'' \<Longrightarrow>
   GetChildren_loop api hFind cFileName result w =
     (case FindNextFile api hFind w of
        (None, w1) \<Rightarrow> Some (result @ [cFileName], w1)
      | (Some next_name, w1) \<Rightarrow> GetChildren_loop api hFind next_name (result @ [cFileName]) w1)"
  by (subst GetChildren_loop.simps) simp

text \<open>
  On an enumeration without pseudo-entries the loop ends and returns every name, in the
  order of the enumeration.
\<close>

lemma GetChildren_loop_plain:
  "searches w h = Some names \<Longrightarrow> c \<noteq> ''.'' \<Longrightarrow> c \<noteq> ''..'' \<Longrightarrow>
   ''.'' \<notin> set names \<Longrightarrow> ''..'' \<notin> set names \<Longrightarrow>
   map_option fst (GetChildren_loop win32 h c r w) = Some (r @ c # names)"
proof (induction names arbitrary: c r w)
  case Nil
  then show ?case by (simp add: GetChildren_loop_step os_defs)
next
  case (Cons name names)
  let ?w = "w\<lparr>searches := (searches w)(h \<mapsto> names)\<rparr>"
  have "map_option fst (GetChildren_loop win32 h name (r @ [c]) ?w)
      = Some ((r @ [c]) @ name # names)"
    using Cons.prems by (intro Cons.IH) auto
  with Cons.prems show ?case by (simp add: GetChildren_loop_step os_defs)
qed

lemma GetChildren_flat:
  "map_option fst (Win32Env_GetChildren win32 ''db'' world_flat)
     = Some (OK, [''a.txt'', ''b.txt''])"
  by (simp add: Win32Env_GetChildren_def GetChildren_loop_step os_defs const_defs
      scenario_defs)

text \<open>
  When the directory cannot be opened, the translated error is returned with the output
  vector empty.
\<close>

lemma GetChildren_open_failure:
  "fst (fst (FindFirstFile api (dir @ [CHR 0x5C] @ ''*.*'') w)) = INVALID_HANDLE_VALUE \<Longrightarrow>
   \<exists>detail w'. Win32Env_GetChildren api dir w = Some ((IOError dir detail, []), w')"
proof -
  assume failed: "fst (fst (FindFirstFile api (dir @ [CHR 0x5C] @ ''*.*'') w))
      = INVALID_HANDLE_VALUE"
  let ?e = "GetLastError api (snd (FindFirstFile api (dir @ [CHR 0x5C] @ ''*.*'') w))"
  obtain detail where "fst (Win32IOError api dir (fst ?e) (snd ?e)) = IOError dir detail"
    using Win32IOError_is_IOError [of api dir "fst ?e" "snd ?e"] by blast
  with failed show ?thesis
    by (simp add: Win32Env_GetChildren_def Let_def case_prod_unfold)
qed

lemma GetChildren_missing_directory:
  "map_option fst (Win32Env_GetChildren win32 ''nowhere'' world0)
     = Some (IOError ''nowhere'' ''The system cannot find the path specified.'', [])"
  by (simp add: Win32Env_GetChildren_def Win32IOError_def os_defs const_defs scenario_defs)

text \<open>
  Claim C8 (GetChildren returns, on success, the names of the entries of the directory
  without the pseudo-entries \<^verbatim>\<open>.\<close> and \<^verbatim>\<open>..\<close>) does not hold of the code: on the directory
  \<^verbatim>\<open>db\<close>, whose enumeration is \<^verbatim>\<open>.\<close>, \<^verbatim>\<open>..\<close> and \<^verbatim>\<open>000001.log\<close>, the directory is opened
  with success and the call never returns, where the claim has it return the one name
  \<^verbatim>\<open>000001.log\<close>.
\<close>

theorem GetChildren_never_returns:
  "dirs world0 ''db'' = Some [''.'', ''..'', ''000001.log'']
   \<and> fst (fst (FindFirstFile win32 (''db'' @ [CHR 0x5C] @ ''*.*'') world0))
       \<noteq> INVALID_HANDLE_VALUE
   \<and> Win32Env_GetChildren win32 ''db'' world0 = None"
  by (simp add: Win32Env_GetChildren_def GetChildren_loop_dot os_defs const_defs scenario_defs)

text \<open>
  Claim C10 (the loop of GetChildren advances to the next entry on every iteration and so
  terminates on every finite enumeration, also one that contains \<^verbatim>\<open>.\<close> and \<^verbatim>\<open>..\<close>) does
  not hold of the code: \<^verbatim>\<open>continue\<close> skips the call of \<open>FindNextFile\<close>. The enumeration
  of \<^verbatim>\<open>db\<close> has three entries and starts with \<^verbatim>\<open>.\<close>; the loop entered with that entry
  never ends, and the loop entered with \<^verbatim>\<open>..\<close> never ends either.
\<close>

theorem GetChildren_loop_stuck_on_pseudo_entry:
  "fst (FindFirstFile win32 (''db'' @ [CHR 0x5C] @ ''*.*'') world0) = (4, ''.'')
   \<and> searches (snd (FindFirstFile win32 (''db'' @ [CHR 0x5C] @ ''*.*'') world0)) 4
       = Some [''..'', ''000001.log'']
   \<and> GetChildren_loop (traced win32) 4 ''.'' []
         (snd (FindFirstFile win32 (''db'' @ [CHR 0x5C] @ ''*.*'') world0), []) = None
   \<and> GetChildren_loop (traced win32) 4 ''..'' []
         (snd (FindFirstFile win32 (''db'' @ [CHR 0x5C] @ ''*.*'') world0), []) = None"
  by (simp add: GetChildren_loop_dot GetChildren_loop_dotdot os_defs const_defs scenario_defs)

end
